theory Spec2Isabelle
  imports Main "HOL-Library.Sublist"
begin

section \<open>JavaScript strings and the insertion-ordered Map\<close>

text \<open>
  Strings are character lists.  The only separators the client splits on are
  \<open>" "\<close> and \<open>"__"\<close>, both ASCII, so matching on bytes and matching on UTF-16 code
  units find the same occurrences.
\<close>

text \<open>
  \<open>String.prototype.split(sep)\<close> for a non-empty separator: scan from the left, cut at every
  occurrence of \<open>sep\<close>, resume right after it; the piece collected so far is \<open>acc\<close>
  (reversed).  The last piece is always emitted, so the result is never empty.
\<close>

function js_split_from :: "string \<Rightarrow> string \<Rightarrow> string \<Rightarrow> string list" where
  "js_split_from sep acc [] = [rev acc]"
| "js_split_from sep acc (c # cs) =
     (if sep \<noteq> [] \<and> prefix sep (c # cs)
      then rev acc # js_split_from sep [] (drop (length sep) (c # cs))
      else js_split_from sep (c # acc) cs)"
  by pat_completeness auto
termination
  by (relation "measure (\<lambda>(sep, acc, s). length s)") (auto simp: neq_Nil_conv)

definition split :: "string \<Rightarrow> string \<Rightarrow> string list" where
  "split s sep = (if sep = [] then map (\<lambda>c. [c]) s else js_split_from sep [] s)"

text \<open>\<open>String.prototype.includes\<close>.\<close>

fun str_includes :: "string \<Rightarrow> string \<Rightarrow> bool" where
  "str_includes [] sub = (sub = [])"
| "str_includes (c # cs) sub = (prefix sub (c # cs) \<or> str_includes cs sub)"

text \<open>\<open>String.prototype.startsWith\<close>.\<close>

definition startsWith :: "string \<Rightarrow> string \<Rightarrow> bool" where
  "startsWith s p = prefix p s"

text \<open>\<open>Array.prototype.join\<close> on strings.\<close>

fun join :: "string \<Rightarrow> string list \<Rightarrow> string" where
  "join sep [] = []"
| "join sep [x] = x"
| "join sep (x # y # ys) = x @ sep @ join sep (y # ys)"

text \<open>Truthiness of a \<open>string | null | undefined\<close> value: present and non-empty.\<close>

fun truthy :: "string option \<Rightarrow> bool" where
  "truthy None = False"
| "truthy (Some s) = (s \<noteq> [])"

text \<open>A value interpolated into a template literal; \<open>undefined\<close> prints as such.\<close>

fun interpolate :: "string option \<Rightarrow> string" where
  "interpolate None = ''undefined''"
| "interpolate (Some s) = s"

text \<open>
  A JavaScript \<open>Map\<close> keeps its entries in insertion order; \<open>set\<close> on a key that is
  present overwrites the value in place, \<open>set\<close> on a new key appends.
\<close>

type_synonym ('k, 'v) js_map = "('k \<times> 'v) list"

fun Map_set :: "'k \<Rightarrow> 'v \<Rightarrow> ('k, 'v) js_map \<Rightarrow> ('k, 'v) js_map" where
  "Map_set k v [] = [(k, v)]"
| "Map_set k v ((k', v') # m) =
     (if k' = k then (k, v) # m else (k', v') # Map_set k v m)"

definition Map_get :: "('k, 'v) js_map \<Rightarrow> 'k \<Rightarrow> 'v option" where
  "Map_get m k = map_of m k"

definition Map_size :: "('k, 'v) js_map \<Rightarrow> nat" where
  "Map_size m = length m"

definition Map_values :: "('k, 'v) js_map \<Rightarrow> 'v list" where
  "Map_values m = map snd m"

section \<open>Tool names: qualification and its inverse\<close>

text \<open>The catalog entry's name, \<open>`${serverName}__${tool.name}`\<close>.\<close>

definition qualifiedName :: "string \<Rightarrow> string \<Rightarrow> string" where
  "qualifiedName serverName toolName = serverName @ ''__'' @ toolName"

text \<open>
  \<open>const [serverName, toolName] = toolCall.function.name.split("__")\<close>: the first two
  pieces of the split; a missing second piece is \<open>undefined\<close>, further pieces are dropped.
\<close>

definition resolveName :: "string \<Rightarrow> string \<times> string option" where
  "resolveName qname =
     (case split qname ''__'' of
        [] \<Rightarrow> ([], None)
      | [serverName] \<Rightarrow> (serverName, None)
      | serverName # toolName # _ \<Rightarrow> (serverName, Some toolName))"

section \<open>Data model\<close>

text \<open>
  Values produced by \<open>JSON.parse\<close> (tool arguments) and carried as tool schemas.  The
  client never inspects them: it hands them to the provider and to \<open>JSON.stringify\<close>.
\<close>

datatype json =
    JNull
  | JBool bool
  | JNum int
  | JStr string
  | JArr "json list"
  | JObj "(string \<times> json) list"

text \<open>\<open>interface ServerConfig\<close> and the \<open>config\<close> table of the client.\<close>

datatype server_type = Command | Sse | Http

record ServerConfig =
  cfg_name :: string
  cfg_type :: server_type
  cfg_command :: "string option"
  cfg_url :: "string option"
  cfg_isOpen :: "bool option"

definition config :: "ServerConfig list" where
  "config =
     [\<lparr>cfg_name = ''demo-stdio-v1'', cfg_type = Command,
       cfg_command = Some ''tsx mcp-server-v1.ts'', cfg_url = None, cfg_isOpen = Some True\<rparr>,
      \<lparr>cfg_name = ''demo-stdio-v2'', cfg_type = Command,
       cfg_command = Some ''tsx mcp-server-v2.ts'', cfg_url = None, cfg_isOpen = Some False\<rparr>,
      \<lparr>cfg_name = ''demo-mcp-protocol'', cfg_type = Http,
       cfg_command = None, cfg_url = Some ''http://localhost:3000'', cfg_isOpen = Some False\<rparr>]"

text \<open>
  Objects created with \<open>new\<close> carry an identity (a number drawn from a counter), so that two
  transports built from the same parameters, or two \<open>Client\<close> objects, are different values.
  The \<open>env\<close> field of the subprocess parameters is a copy of the process environment and is
  left out.
\<close>

datatype transport =
    StdioClientTransport nat string "string list"
  | SSEClientTransport nat string
  | StreamableHTTPClientTransport nat string

datatype client = Client nat

text \<open>\<open>Tool\<close> of the provider SDK, and the entry built from it for the model service.\<close>

record tool =
  tool_name :: string
  tool_description :: "string option"
  tool_inputSchema :: json

record tooldef =
  td_name :: string
  td_description :: string
  td_parameters :: json

text \<open>A call request of the model (\<open>toolCall.id\<close>, \<open>toolCall.function.name\<close>,
  \<open>toolCall.function.arguments\<close>), the turns of the conversation
  (\<open>ChatCompletionMessageParam\<close>) and the message of one returned choice.\<close>

record tool_call =
  tc_id :: string
  tc_name :: string
  tc_arguments :: string

datatype message =
    UserMessage string
  | AssistantMessage string "tool_call list"
  | ToolMessage string string

record choice_message =
  msg_content :: "string option"
  msg_tool_calls :: "tool_call list option"

text \<open>
  Everything that can be thrown.  The first five are the \<open>new Error(...)\<close> of the client
  itself; \<open>TypeError\<close> and \<open>SyntaxError\<close> come from the language (\<open>new URL\<close>, reading a
  property of \<open>undefined\<close>, \<open>JSON.parse\<close>); \<open>Rejected\<close> is a rejection coming from the
  provider SDK, a transport or the model service.
\<close>

datatype error =
    ServerConfigNotFound string
  | InvalidServerConfig string
  | InvalidShellCommand
  | NotConnected
  | FailedToConnectAny
  | TypeError string
  | SyntaxError string
  | Rejected string

text \<open>
  What the client does to the outside world, in order: requests to providers, to the model
  service, and lines on the console and the prompt.
\<close>

datatype console_arg = Str string | Strs "string list" | Err error

datatype event =
    ClientConnect client transport
  | ListTools client
  | CallTool client "string option" json
  | TransportClose transport
  | ChatCompletion "message list" "tooldef list"
  | ConsoleLog "console_arg list"
  | ConsoleError "console_arg list"
  | Question string
  | ReadlineClose

type_synonym trace = "event list"

text \<open>
  The collaborators the client calls but does not define.  Each answer may depend on
  everything that happened before (the trace up to the request), so providers and the model
  service may be stateful.  \<open>None\<close> from \<open>sdk_connect\<close> and \<open>sdk_close\<close> means the promise
  resolved; \<open>None\<close> from \<open>json_parse\<close> means \<open>JSON.parse\<close> threw.
\<close>

record env =
  homedir :: string
  url_ok :: "string \<Rightarrow> bool"
  json_parse :: "string \<Rightarrow> json option"
  json_stringify :: "json \<Rightarrow> string"
  str_trim :: "string \<Rightarrow> string"
  str_toLowerCase :: "string \<Rightarrow> string"
  sdk_connect :: "trace \<Rightarrow> client \<Rightarrow> transport \<Rightarrow> error option"
  sdk_listTools :: "trace \<Rightarrow> client \<Rightarrow> error + tool list"
  sdk_callTool :: "trace \<Rightarrow> client \<Rightarrow> string option \<Rightarrow> json \<Rightarrow> error + string"
  sdk_close :: "trace \<Rightarrow> transport \<Rightarrow> error option"
  openai_create :: "trace \<Rightarrow> message list \<Rightarrow> tooldef list \<Rightarrow> error + choice_message list"

text \<open>The fields of \<open>class MCPClient\<close>, and the counter the object identities come from.\<close>

record MCPClient =
  sessions :: "(string, client) js_map"
  transports :: "(string, transport) js_map"
  next_oid :: nat

text \<open>\<open>new MCPClient()\<close>: both maps empty.\<close>

definition newMCPClient :: MCPClient where
  "newMCPClient = \<lparr>sessions = [], transports = [], next_oid = 0\<rparr>"

section \<open>Connecting to a provider\<close>

text \<open>\<open>MCPClient.getOpenServers\<close>.\<close>

definition getOpenServers :: "ServerConfig list \<Rightarrow> string list" where
  "getOpenServers cfgs = map cfg_name (filter (\<lambda>cfg. cfg_isOpen cfg = Some True) cfgs)"

text \<open>
  \<open>createCommandTransport\<close>: the first word of the command line is the program, an argument
  starting with \<open>~/\<close> gets its leading \<open>~\<close> replaced by the home directory (taken
  literally: a home directory containing \<open>$\<close> patterns of \<open>String.prototype.replace\<close> is
  not considered).
\<close>

definition createCommandTransport :: "env \<Rightarrow> nat \<Rightarrow> string \<Rightarrow> error + transport" where
  "createCommandTransport e oid shell =
     (case split shell '' '' of
        [] \<Rightarrow> Inl InvalidShellCommand
      | command # shellArgs \<Rightarrow>
          if command = [] then Inl InvalidShellCommand
          else Inr (StdioClientTransport oid command
                 (map (\<lambda>arg. if startsWith arg ''~/'' then homedir e @ drop 1 arg else arg)
                    shellArgs)))"

definition createSSETransport :: "env \<Rightarrow> nat \<Rightarrow> string \<Rightarrow> error + transport" where
  "createSSETransport e oid url =
     (if url_ok e url then Inr (SSEClientTransport oid url) else Inl (TypeError ''Invalid URL''))"

definition createHttpTransport :: "nat \<Rightarrow> string \<Rightarrow> transport" where
  "createHttpTransport oid url = StreamableHTTPClientTransport oid url"

text \<open>The \<open>if\<close> chain of \<open>connectToServer\<close> that picks the transport for a configuration.\<close>

definition selectTransport ::
  "env \<Rightarrow> nat \<Rightarrow> string \<Rightarrow> ServerConfig \<Rightarrow> error + transport" where
  "selectTransport e oid serverName serverConfig =
     (if cfg_type serverConfig = Command \<and> truthy (cfg_command serverConfig)
      then createCommandTransport e oid (the (cfg_command serverConfig))
      else if cfg_type serverConfig = Sse \<and> truthy (cfg_url serverConfig)
      then createSSETransport e oid (the (cfg_url serverConfig))
      else if cfg_type serverConfig = Http \<and> truthy (cfg_url serverConfig)
      then (if url_ok e (the (cfg_url serverConfig))
            then Inr (createHttpTransport oid (the (cfg_url serverConfig)))
            else Inl (TypeError ''Invalid URL''))
      else Inl (InvalidServerConfig serverName))"

text \<open>
  \<open>connectToServer\<close>.  The session and the transport are stored as soon as
  \<open>client.connect\<close> has resolved; the tool listing that follows is only printed, and if it
  rejects the method throws with both entries already stored.
\<close>

definition connectToServer ::
  "env \<Rightarrow> ServerConfig list \<Rightarrow> string \<Rightarrow> MCPClient \<Rightarrow> trace
     \<Rightarrow> MCPClient \<times> trace \<times> (error + unit)" where
  "connectToServer e cfgs serverName c tr =
     (case find (\<lambda>cfg. cfg_name cfg = serverName) cfgs of
        None \<Rightarrow> (c, tr, Inl (ServerConfigNotFound serverName))
      | Some serverConfig \<Rightarrow>
          (case selectTransport e (next_oid c) serverName serverConfig of
             Inl err \<Rightarrow> (c, tr, Inl err)
           | Inr transport \<Rightarrow>
               let cl = Client (next_oid c + 1);
                   c1 = c\<lparr>next_oid := next_oid c + 2\<rparr>;
                   tr1 = tr @ [ClientConnect cl transport]
               in (case sdk_connect e tr cl transport of
                     Some err \<Rightarrow> (c1, tr1, Inl err)
                   | None \<Rightarrow>
                       let c2 = c1\<lparr>sessions := Map_set serverName cl (sessions c1),
                                   transports := Map_set serverName transport (transports c1)\<rparr>;
                           tr2 = tr1 @ [ListTools cl]
                       in (case sdk_listTools e tr1 cl of
                             Inl err \<Rightarrow> (c2, tr2, Inl err)
                           | Inr tools \<Rightarrow>
                               (c2,
                                tr2 @ [ConsoleLog
                                   [Str (''\<newline>Connected to server '' @ [CHR 0x27] @ serverName
                                         @ [CHR 0x27] @ '' with tools:''),
                                    Strs (map tool_name tools)]],
                                Inr ())))))"

section \<open>Processing one query\<close>

text \<open>Step 1: the catalog, one entry per tool of every session, in Map order.\<close>

definition toolEntry :: "string \<Rightarrow> tool \<Rightarrow> tooldef" where
  "toolEntry serverName t =
     \<lparr>td_name = qualifiedName serverName (tool_name t),
      td_description = ''['' @ serverName @ ''] '' @ interpolate (tool_description t),
      td_parameters = tool_inputSchema t\<rparr>"

fun collectTools ::
  "env \<Rightarrow> (string, client) js_map \<Rightarrow> tooldef list \<Rightarrow> trace \<Rightarrow> trace \<times> (error + tooldef list)" where
  "collectTools e [] availableTools tr = (tr, Inr availableTools)"
| "collectTools e ((serverName, session) # rest) availableTools tr =
     (case sdk_listTools e tr session of
        Inl err \<Rightarrow> (tr @ [ListTools session], Inl err)
      | Inr tools \<Rightarrow>
          collectTools e rest (availableTools @ map (toolEntry serverName) tools)
            (tr @ [ListTools session]))"

text \<open>The two local arrays of \<open>processQuery\<close>.\<close>

record pq_state =
  messages :: "message list"
  finalText :: "string list"

text \<open>
  The body of the loop over \<open>message.tool_calls\<close>, for one call request: resolve the name;
  without a session push the error line and go on; otherwise parse the arguments, call the
  tool, push the progress line and the result, extend the conversation by the call and its
  result, ask the model once more and push the text of its first choice.
\<close>

definition processToolCall ::
  "env \<Rightarrow> (string, client) js_map \<Rightarrow> tooldef list \<Rightarrow> tool_call \<Rightarrow> pq_state \<Rightarrow> trace
     \<Rightarrow> trace \<times> (error + pq_state)" where
  "processToolCall e ss availableTools toolCall st tr =
     (case resolveName (tc_name toolCall) of
        (serverName, toolName) \<Rightarrow>
          (case Map_get ss serverName of
             None \<Rightarrow>
               (tr, Inr (st\<lparr>finalText :=
                             finalText st @ [''[Error: Server '' @ serverName @ '' not found]'']\<rparr>))
           | Some session \<Rightarrow>
               (case json_parse e (tc_arguments toolCall) of
                  None \<Rightarrow> (tr, Inl (SyntaxError (tc_arguments toolCall)))
                | Some toolArgs \<Rightarrow>
                    (case sdk_callTool e tr session toolName toolArgs of
                       Inl err \<Rightarrow> (tr @ [CallTool session toolName toolArgs], Inl err)
                     | Inr resultContent \<Rightarrow>
                         let ft = finalText st @
                                    [''[Calling tool '' @ interpolate toolName @ '' on server ''
                                       @ serverName @ '' with args '' @ json_stringify e toolArgs
                                       @ '']'',
                                     resultContent];
                             msgs = messages st @
                                    [AssistantMessage [] [toolCall],
                                     ToolMessage (tc_id toolCall) resultContent];
                             tr1 = tr @ [CallTool session toolName toolArgs,
                                         ConsoleLog [Str ''\<newline> -- toolResult.content -- \<newline>'',
                                                     Str resultContent]];
                             tr2 = tr1 @ [ChatCompletion msgs availableTools]
                         in (case openai_create e tr1 msgs availableTools of
                               Inl err \<Rightarrow> (tr2, Inl err)
                             | Inr [] \<Rightarrow> (tr2, Inl (TypeError ''choices[0] is undefined''))
                             | Inr (first # _) \<Rightarrow>
                                 (tr2,
                                  Inr \<lparr>messages = msgs,
                                       finalText =
                                         (if truthy (msg_content first)
                                          then ft @ [the (msg_content first)] else ft)\<rparr>))))))"

fun processToolCalls ::
  "env \<Rightarrow> (string, client) js_map \<Rightarrow> tooldef list \<Rightarrow> tool_call list \<Rightarrow> pq_state \<Rightarrow> trace
     \<Rightarrow> trace \<times> (error + pq_state)" where
  "processToolCalls e ss availableTools [] st tr = (tr, Inr st)"
| "processToolCalls e ss availableTools (toolCall # rest) st tr =
     (case processToolCall e ss availableTools toolCall st tr of
        (tr', Inl err) \<Rightarrow> (tr', Inl err)
      | (tr', Inr st') \<Rightarrow> processToolCalls e ss availableTools rest st' tr')"

text \<open>The loop over \<open>completion.choices\<close>.\<close>

fun processChoices ::
  "env \<Rightarrow> (string, client) js_map \<Rightarrow> tooldef list \<Rightarrow> choice_message list \<Rightarrow> pq_state \<Rightarrow> trace
     \<Rightarrow> trace \<times> (error + pq_state)" where
  "processChoices e ss availableTools [] st tr = (tr, Inr st)"
| "processChoices e ss availableTools (msg # rest) st tr =
     (let st1 = (if truthy (msg_content msg)
                 then st\<lparr>finalText := finalText st @ [the (msg_content msg)]\<rparr> else st)
      in case msg_tool_calls msg of
           None \<Rightarrow> processChoices e ss availableTools rest st1 tr
         | Some toolCalls \<Rightarrow>
             (case processToolCalls e ss availableTools toolCalls st1 tr of
                (tr', Inl err) \<Rightarrow> (tr', Inl err)
              | (tr', Inr st2) \<Rightarrow> processChoices e ss availableTools rest st2 tr'))"

definition processQuery :: "env \<Rightarrow> MCPClient \<Rightarrow> string \<Rightarrow> trace \<Rightarrow> trace \<times> (error + string)" where
  "processQuery e c query tr =
     (if Map_size (sessions c) = 0 then (tr, Inl NotConnected)
      else
        (case collectTools e (sessions c) [] tr of
           (tr1, Inl err) \<Rightarrow> (tr1, Inl err)
         | (tr1, Inr availableTools) \<Rightarrow>
             let msgs = [UserMessage query];
                 tr2 = tr1 @ [ChatCompletion msgs availableTools]
             in (case openai_create e tr1 msgs availableTools of
                   Inl err \<Rightarrow> (tr2, Inl err)
                 | Inr choices \<Rightarrow>
                     (case processChoices e (sessions c) availableTools choices
                             \<lparr>messages = msgs, finalText = []\<rparr> tr2 of
                        (tr3, Inl err) \<Rightarrow> (tr3, Inl err)
                      | (tr3, Inr st) \<Rightarrow> (tr3, Inr (join ''\<newline>'' (finalText st)))))))"

section \<open>The interactive loop, teardown and \<open>main\<close>\<close>

text \<open>
  The \<open>while (true)\<close> of \<open>chatLoop\<close>, fed with the lines typed at the prompt.  Each round
  asks, trims, stops on \<open>quit\<close>, and otherwise runs the query inside \<open>try\<close>/\<open>catch\<close>: the
  answer goes to \<open>console.log\<close>, an error to \<open>console.error\<close>, and the next round starts.
  The flag is \<open>True\<close> when the loop was left by \<open>break\<close> and \<open>False\<close> when the input ran
  out, in which case the pending question never resolves.
\<close>

fun chatRounds :: "env \<Rightarrow> MCPClient \<Rightarrow> string list \<Rightarrow> trace \<Rightarrow> trace \<times> bool" where
  "chatRounds e c [] tr = (tr @ [Question ''\<newline>Query: ''], False)"
| "chatRounds e c (line # rest) tr =
     (let tr0 = tr @ [Question ''\<newline>Query: ''];
          query = str_trim e line
      in if str_toLowerCase e query = ''quit'' then (tr0, True)
         else (case processQuery e c query tr0 of
                 (tr1, Inr response) \<Rightarrow>
                   chatRounds e c rest (tr1 @ [ConsoleLog [Str (''\<newline>'' @ response)]])
               | (tr1, Inl err) \<Rightarrow>
                   chatRounds e c rest (tr1 @ [ConsoleError [Str ''\<newline>Error:'', Err err]])))"

definition chatLoop :: "env \<Rightarrow> MCPClient \<Rightarrow> string list \<Rightarrow> trace \<Rightarrow> trace \<times> bool" where
  "chatLoop e c input tr =
     (case chatRounds e c input
             (tr @ [ConsoleLog [Str ''\<newline>MCP Client Started!''],
                    ConsoleLog [Str (''Type your queries or '' @ [CHR 0x27] @ ''quit''
                                     @ [CHR 0x27] @ '' to exit.'')]]) of
        (tr1, True) \<Rightarrow> (tr1 @ [ReadlineClose], True)
      | (tr1, False) \<Rightarrow> (tr1, False))"

text \<open>
  \<open>cleanup\<close>: close the transports in Map order, each close awaited with no handler around
  it, then clear both maps.
\<close>

fun closeTransports :: "env \<Rightarrow> transport list \<Rightarrow> trace \<Rightarrow> trace \<times> (error + unit)" where
  "closeTransports e [] tr = (tr, Inr ())"
| "closeTransports e (t # ts) tr =
     (case sdk_close e tr t of
        Some err \<Rightarrow> (tr @ [TransportClose t], Inl err)
      | None \<Rightarrow> closeTransports e ts (tr @ [TransportClose t]))"

definition cleanup :: "env \<Rightarrow> MCPClient \<Rightarrow> trace \<Rightarrow> MCPClient \<times> trace \<times> (error + unit)" where
  "cleanup e c tr =
     (case closeTransports e (Map_values (transports c)) tr of
        (tr', Inl err) \<Rightarrow> (c, tr', Inl err)
      | (tr', Inr u) \<Rightarrow> (c\<lparr>transports := [], sessions := []\<rparr>, tr', Inr ()))"

definition hasActiveSessions :: "MCPClient \<Rightarrow> bool" where
  "hasActiveSessions c = (Map_size (sessions c) > 0)"

text \<open>
  The loop of \<open>main\<close> over the open servers: every name is tried, a throw of
  \<open>connectToServer\<close> is caught and printed.
\<close>

fun connectOpenServers ::
  "env \<Rightarrow> ServerConfig list \<Rightarrow> string list \<Rightarrow> MCPClient \<Rightarrow> trace \<Rightarrow> MCPClient \<times> trace" where
  "connectOpenServers e cfgs [] c tr = (c, tr)"
| "connectOpenServers e cfgs (serverName # rest) c tr =
     (case connectToServer e cfgs serverName c tr of
        (c', tr', Inr u) \<Rightarrow> connectOpenServers e cfgs rest c' tr'
      | (c', tr', Inl err) \<Rightarrow>
          connectOpenServers e cfgs rest c'
            (tr' @ [ConsoleError
                      [Str (''Failed to connect to server '' @ [CHR 0x27] @ serverName
                            @ [CHR 0x27] @ '':''),
                       Err err]]))"

text \<open>
  \<open>main\<close>, with its \<open>try\<close>/\<open>finally\<close>: \<open>cleanup\<close> runs on the way out of the block, and
  what it throws replaces what the block threw.  The result is \<open>None\<close> when the prompt
  waits for input that never comes, so that \<open>main\<close> never returns.
\<close>

definition main ::
  "env \<Rightarrow> ServerConfig list \<Rightarrow> string list \<Rightarrow> MCPClient \<times> trace \<times> (error + unit) option" where
  "main e cfgs input =
     (let openServers = getOpenServers cfgs;
          tr0 = [ConsoleLog [Str ''Connecting to servers:'', Str (join '', '' openServers)]];
          c0 = newMCPClient
      in case connectOpenServers e cfgs openServers c0 tr0 of
           (c1, tr1) \<Rightarrow>
             if \<not> hasActiveSessions c1
             then (case cleanup e c1 tr1 of
                     (c2, tr2, Inl err) \<Rightarrow> (c2, tr2, Some (Inl err))
                   | (c2, tr2, Inr u) \<Rightarrow> (c2, tr2, Some (Inl FailedToConnectAny)))
             else (case chatLoop e c1 input tr1 of
                     (tr2, False) \<Rightarrow> (c1, tr2, None)
                   | (tr2, True) \<Rightarrow>
                       (case cleanup e c1 tr2 of
                          (c3, tr3, r) \<Rightarrow> (c3, tr3, Some r))))"

section \<open>Reading a trace\<close>



fun isTransportClose :: "event \<Rightarrow> bool" where
  "isTransportClose (TransportClose t) = True"
| "isTransportClose ev = False"



section \<open>Dispatch in order\<close>

text \<open>
  Dispatch as the design describes it, entered once per call request in the order returned
  by the model, said with the list fold of the library: the requests are taken from left to
  right, each one is handed to the loop body \<open>processToolCall\<close> with the state and the
  trace the one before it left, and once one has thrown the rest is passed over.  It is
  compared below with the loop of the client, \<open>processToolCalls\<close>.
\<close>

definition dispatchStep ::
  "env \<Rightarrow> (string, client) js_map \<Rightarrow> tooldef list \<Rightarrow> trace \<times> (error + pq_state) \<Rightarrow> tool_call
     \<Rightarrow> trace \<times> (error + pq_state)" where
  "dispatchStep e ss availableTools acc toolCall =
     (case acc of
        (tr, Inl err) \<Rightarrow> (tr, Inl err)
      | (tr, Inr st) \<Rightarrow> processToolCall e ss availableTools toolCall st tr)"

definition dispatchInOrder ::
  "env \<Rightarrow> (string, client) js_map \<Rightarrow> tooldef list \<Rightarrow> tool_call list
     \<Rightarrow> trace \<times> (error + pq_state) \<Rightarrow> trace \<times> (error + pq_state)" where
  "dispatchInOrder e ss availableTools toolCalls acc =
     foldl (dispatchStep e ss availableTools) acc toolCalls"

section \<open>A concrete setting\<close>

text \<open>
  Two configured providers, \<open>alerts\<close> over a subprocess and \<open>geo\<close> over HTTP, each offering
  \<open>get-alerts\<close>; collaborators that always succeed; a model that answers with plain text.
  \<open>ex_client\<close> is the client after \<open>alerts\<close> has connected, \<open>ex_client2\<close> after both
  have.  The variations below change one collaborator at a time.
\<close>

definition ex_cfgs :: "ServerConfig list" where
  "ex_cfgs =
     [\<lparr>cfg_name = ''alerts'', cfg_type = Command,
       cfg_command = Some ''tsx mcp-server-v1.ts'', cfg_url = None, cfg_isOpen = Some True\<rparr>,
      \<lparr>cfg_name = ''geo'', cfg_type = Http,
       cfg_command = None, cfg_url = Some ''http://localhost:3000'', cfg_isOpen = Some True\<rparr>]"

definition ex_tool :: tool where
  "ex_tool =
     \<lparr>tool_name = ''get-alerts'', tool_description = Some ''Get weather alerts for a state'',
      tool_inputSchema = JObj [(''type'', JStr ''object'')]\<rparr>"

definition ex_env :: env where
  "ex_env =
     \<lparr>homedir = ''/home/user'',
      url_ok = (\<lambda>u. True),
      json_parse = (\<lambda>s. if s = ''{}'' then Some (JObj []) else None),
      json_stringify = (\<lambda>j. ''{}''),
      str_trim = (\<lambda>s. s),
      str_toLowerCase = (\<lambda>s. s),
      sdk_connect = (\<lambda>tr cl t. None),
      sdk_listTools = (\<lambda>tr cl. Inr [ex_tool]),
      sdk_callTool = (\<lambda>tr cl n a. Inr ''No active alerts''),
      sdk_close = (\<lambda>tr t. None),
      openai_create =
        (\<lambda>tr msgs tools. Inr [\<lparr>msg_content = Some ''Done.'', msg_tool_calls = None\<rparr>])\<rparr>"

definition ex_client :: MCPClient where
  "ex_client =
     \<lparr>sessions = [(''alerts'', Client 1)],
      transports = [(''alerts'', StdioClientTransport 0 ''tsx'' [''mcp-server-v1.ts''])],
      next_oid = 2\<rparr>"

definition ex_call :: "string \<Rightarrow> string \<Rightarrow> tool_call" where
  "ex_call i n = \<lparr>tc_id = i, tc_name = n, tc_arguments = ''{}''\<rparr>"

definition ex_catalog :: "tooldef list" where
  "ex_catalog = [toolEntry ''alerts'' ex_tool]"

definition ex_client2 :: MCPClient where
  "ex_client2 =
     \<lparr>sessions = [(''alerts'', Client 1), (''geo'', Client 3)],
      transports = [(''alerts'', StdioClientTransport 0 ''tsx'' [''mcp-server-v1.ts'']),
                    (''geo'', StreamableHTTPClientTransport 2 ''http://localhost:3000'')],
      next_oid = 4\<rparr>"



text \<open>Closing a subprocess transport is rejected; the other kinds close.\<close>

definition ex_env_close_fails :: env where
  "ex_env_close_fails =
     ex_env\<lparr>sdk_close := (\<lambda>tr t. case t of
                 StdioClientTransport i cmd args \<Rightarrow> Some (Rejected ''kill EPERM'')
               | SSEClientTransport i url \<Rightarrow> None
               | StreamableHTTPClientTransport i url \<Rightarrow> None)\<rparr>"

text \<open>
  The tool listing is rejected for the second client object (the one made for \<open>geo\<close>), and
  for every client object.
\<close>

definition ex_env_listing_fails :: env where
  "ex_env_listing_fails =
     ex_env\<lparr>sdk_listTools := (\<lambda>tr cl.
        if cl = Client 1 then Inr [ex_tool]
        else Inl (Rejected ''MCP error -32601: Method not found''))\<rparr>"

definition ex_env_no_listing :: env where
  "ex_env_no_listing =
     ex_env\<lparr>sdk_listTools := (\<lambda>tr cl. Inl (Rejected ''MCP error -32601: Method not found''))\<rparr>"

text \<open>The two providers registered in the other order.\<close>

definition ex_client_geo_first :: MCPClient where
  "ex_client_geo_first =
     \<lparr>sessions = [(''geo'', Client 1), (''alerts'', Client 3)],
      transports = [(''geo'', StreamableHTTPClientTransport 0 ''http://localhost:3000''),
                    (''alerts'', StdioClientTransport 2 ''tsx'' [''mcp-server-v1.ts''])],
      next_oid = 4\<rparr>"

section \<open>Splitting a qualified name\<close>

lemma js_split_no_sep:
  "\<not> str_includes s ''__'' \<Longrightarrow> js_split_from ''__'' acc s = [rev acc @ s]"
  by (induction s arbitrary: acc) auto

lemma js_split_first_sep:
  "\<not> str_includes p ''__'' \<Longrightarrow> \<not> suffix ''_'' p \<Longrightarrow>
   js_split_from ''__'' acc (p @ ''__'' @ c) = (rev acc @ p) # js_split_from ''__'' [] c"
proof (induction p arbitrary: acc)
  case Nil
  then show ?case by simp
next
  case (Cons x xs)
  then show ?case
    by (cases xs) (auto simp: suffix_Cons)
qed

text \<open>
  C6, as stated, fails: the provider name \<open>a_\<close> and the tool name \<open>b\<close> are both free of
  \<open>__\<close>, but \<open>a_\<close> + \<open>__\<close> + \<open>b\<close> is \<open>a___b\<close>, whose first \<open>__\<close> starts one character
  early, and the split gives back the pair (\<open>a\<close>, \<open>_b\<close>).
\<close>

theorem roundtrip_counterexample:
  "\<not> str_includes ''a_'' ''__'' \<and> \<not> str_includes ''b'' ''__'' \<and>
   resolveName (qualifiedName ''a_'' ''b'') = (''a'', Some ''_b'') \<and>
   resolveName (qualifiedName ''a_'' ''b'') \<noteq> (''a_'', Some ''b'')"
  by (simp add: resolveName_def qualifiedName_def split_def)

text \<open>
  C6, amended: for every provider name \<open>p\<close> that contains no \<open>__\<close> and does not end with
  \<open>_\<close>, and every tool name \<open>c\<close> that contains no \<open>__\<close>, splitting the qualified name built
  from \<open>p\<close> and \<open>c\<close> gives back exactly the pair (\<open>p\<close>, \<open>c\<close>).
\<close>

theorem roundtrip:
  assumes "\<not> str_includes p ''__''" and "\<not> suffix ''_'' p" and "\<not> str_includes c ''__''"
  shows "resolveName (qualifiedName p c) = (p, Some c)"
  using assms js_split_first_sep [where p = p and c = c and acc = "[]"]
    js_split_no_sep [where s = c and acc = "[]"]
  by (simp add: resolveName_def qualifiedName_def split_def)

theorem roundtrip_witness:
  "\<not> str_includes ''alerts'' ''__'' \<and> \<not> suffix ''_'' ''alerts'' \<and>
   \<not> str_includes ''get-alerts'' ''__'' \<and>
   resolveName (qualifiedName ''alerts'' ''get-alerts'') = (''alerts'', Some ''get-alerts'')"
  using roundtrip [of "''alerts''" "''get-alerts''"]
  by (simp add: suffix_to_prefix)

text \<open>
  C7: the claim asks for a split at the first \<open>__\<close> only, the rest being the local name.
  The code splits at every \<open>__\<close> and keeps the first two pieces.  A provider \<open>alerts\<close>
  advertising a tool \<open>get__alerts\<close> gets the catalog name \<open>alerts__get__alerts\<close>; a call
  request for that name is sent to \<open>alerts\<close> as a call of \<open>get\<close>.
\<close>

theorem resolve_keeps_two_pieces:
  "td_name (toolEntry ''alerts'' (ex_tool\<lparr>tool_name := ''get__alerts''\<rparr>)) = ''alerts__get__alerts'' \<and>
   resolveName ''alerts__get__alerts'' = (''alerts'', Some ''get'') \<and>
   take 1 (fst (processToolCall ex_env (sessions ex_client) ex_catalog
                  (ex_call ''call_1'' ''alerts__get__alerts'')
                  \<lparr>messages = [UserMessage ''alerts for NY''], finalText = []\<rparr> []))
     = [CallTool (Client 1) (Some ''get'') (JObj [])]"
  by (simp add: toolEntry_def qualifiedName_def ex_tool_def resolveName_def split_def
      processToolCall_def ex_client_def ex_env_def ex_call_def Map_get_def Let_def)

section \<open>Dispatching call requests\<close>


text \<open>
  The loop of the client and the fold agree: every request of the reply is handed to the loop
  body, in the order of the reply, until one throws.
\<close>

lemma dispatchInOrder_thrown:
  "dispatchInOrder e ss a toolCalls (tr, Inl err) = (tr, Inl err)"
  by (induction toolCalls) (simp_all add: dispatchInOrder_def dispatchStep_def)

lemma dispatchInOrder_Cons:
  "dispatchInOrder e ss a (toolCall # rest) (tr, Inr st) =
     dispatchInOrder e ss a rest (processToolCall e ss a toolCall st tr)"
  by (simp add: dispatchInOrder_def dispatchStep_def)

lemma processToolCalls_in_order:
  "processToolCalls e ss a toolCalls st tr = dispatchInOrder e ss a toolCalls (tr, Inr st)"
proof (induction toolCalls arbitrary: st tr)
  case Nil
  then show ?case by (simp add: dispatchInOrder_def)
next
  case (Cons toolCall rest)
  obtain tr1 r where one: "processToolCall e ss a toolCall st tr = (tr1, r)"
    by (cases "processToolCall e ss a toolCall st tr")
  show ?case
  proof (cases r)
    case (Inl err)
    with one show ?thesis
      by (simp add: dispatchInOrder_Cons dispatchInOrder_thrown)
  next
    case (Inr st1)
    with one Cons.IH show ?thesis
      by (simp add: dispatchInOrder_Cons)
  qed
qed

lemma dispatchInOrder_append:
  "dispatchInOrder e ss a (xs @ ys) acc = dispatchInOrder e ss a ys (dispatchInOrder e ss a xs acc)"
  by (simp add: dispatchInOrder_def)

text \<open>
  C8, as stated, fails: an unresolved request leaves the conversation as it was, so no error
  turn is added to it, and the line it adds to the output carries the server prefix of the
  name only.  Two different requests, \<open>call_7\<close> for \<open>geo__get-forecast\<close> and \<open>call_9\<close>
  for \<open>geo__drop-database\<close>, give the same result.
\<close>

theorem unresolved_call_isolated_counterexample:
  "ex_call ''call_7'' ''geo__get-forecast'' \<noteq> ex_call ''call_9'' ''geo__drop-database''
   \<and> processToolCall ex_env (sessions ex_client) ex_catalog
         (ex_call ''call_7'' ''geo__get-forecast'')
         \<lparr>messages = [UserMessage ''forecast for NY''], finalText = []\<rparr> [] =
       ([], Inr \<lparr>messages = [UserMessage ''forecast for NY''],
                 finalText = [''[Error: Server geo not found]'']\<rparr>)
   \<and> processToolCall ex_env (sessions ex_client) ex_catalog
         (ex_call ''call_9'' ''geo__drop-database'')
         \<lparr>messages = [UserMessage ''forecast for NY''], finalText = []\<rparr> [] =
       ([], Inr \<lparr>messages = [UserMessage ''forecast for NY''],
                 finalText = [''[Error: Server geo not found]'']\<rparr>)"
  by (simp add: processToolCall_def ex_client_def ex_call_def resolveName_def split_def
      Map_get_def)

text \<open>
  C8, amended: in a reply with several call requests, a request whose name resolves to no
  registered session, reached after the requests before it have gone through, adds exactly
  one line to the returned output, \<open>[Error: Server <prefix of its name> not found]\<close>, which
  names the server prefix only, not the request; nothing is added to the conversation, and
  the trace is untouched, so no provider and no model is contacted for it; and every request
  after it in the reply is then handed to the loop body, in order, starting from that state
  and trace, until one of them throws.
\<close>

theorem unresolved_call_isolated:
  assumes "Map_get ss (fst (resolveName (tc_name toolCall))) = None"
    and "dispatchInOrder e ss availableTools before (tr, Inr st) = (tr1, Inr st1)"
  shows "processToolCall e ss availableTools toolCall st1 tr1 =
           (tr1, Inr \<lparr>messages = messages st1,
                      finalText = finalText st1 @
                        [''[Error: Server '' @ fst (resolveName (tc_name toolCall))
                           @ '' not found]'']\<rparr>)
         \<and> processToolCalls e ss availableTools (before @ toolCall # rest) st tr =
           dispatchInOrder e ss availableTools rest
             (tr1, Inr \<lparr>messages = messages st1,
                        finalText = finalText st1 @
                          [''[Error: Server '' @ fst (resolveName (tc_name toolCall))
                             @ '' not found]'']\<rparr>)"
proof -
  obtain serverName toolName where r: "resolveName (tc_name toolCall) = (serverName, toolName)"
    by (cases "resolveName (tc_name toolCall)")
  with assms(1) have "Map_get ss serverName = None" by simp
  with r have one: "processToolCall e ss availableTools toolCall st1 tr1 =
      (tr1, Inr \<lparr>messages = messages st1,
                 finalText = finalText st1 @
                   [''[Error: Server '' @ fst (resolveName (tc_name toolCall))
                      @ '' not found]'']\<rparr>)"
    by (simp add: processToolCall_def)
  have "processToolCalls e ss availableTools (before @ toolCall # rest) st tr =
          dispatchInOrder e ss availableTools (toolCall # rest)
            (dispatchInOrder e ss availableTools before (tr, Inr st))"
    by (simp add: processToolCalls_in_order dispatchInOrder_append)
  with assms(2) one show ?thesis
    by (simp add: dispatchInOrder_Cons)
qed

theorem unresolved_call_isolated_witness:
  "Map_get (sessions ex_client)
     (fst (resolveName (tc_name (ex_call ''call_2'' ''geo__get-forecast'')))) = None
   \<and> processToolCalls ex_env (sessions ex_client) ex_catalog
      [ex_call ''call_1'' ''alerts__get-alerts'', ex_call ''call_2'' ''geo__get-forecast'',
       ex_call ''call_3'' ''alerts__get-alerts'']
      \<lparr>messages = [UserMessage ''q''], finalText = []\<rparr> [] =
     ([CallTool (Client 1) (Some ''get-alerts'') (JObj []),
       ConsoleLog [Str ''\<newline> -- toolResult.content -- \<newline>'', Str ''No active alerts''],
       ChatCompletion
         [UserMessage ''q'',
          AssistantMessage [] [ex_call ''call_1'' ''alerts__get-alerts''],
          ToolMessage ''call_1'' ''No active alerts'']
         ex_catalog,
       CallTool (Client 1) (Some ''get-alerts'') (JObj []),
       ConsoleLog [Str ''\<newline> -- toolResult.content -- \<newline>'', Str ''No active alerts''],
       ChatCompletion
         [UserMessage ''q'',
          AssistantMessage [] [ex_call ''call_1'' ''alerts__get-alerts''],
          ToolMessage ''call_1'' ''No active alerts'',
          AssistantMessage [] [ex_call ''call_3'' ''alerts__get-alerts''],
          ToolMessage ''call_3'' ''No active alerts'']
         ex_catalog],
      Inr \<lparr>messages =
             [UserMessage ''q'',
              AssistantMessage [] [ex_call ''call_1'' ''alerts__get-alerts''],
              ToolMessage ''call_1'' ''No active alerts'',
              AssistantMessage [] [ex_call ''call_3'' ''alerts__get-alerts''],
              ToolMessage ''call_3'' ''No active alerts''],
           finalText =
             [''[Calling tool get-alerts on server alerts with args {}]'',
              ''No active alerts'', ''Done.'',
              ''[Error: Server geo not found]'',
              ''[Calling tool get-alerts on server alerts with args {}]'',
              ''No active alerts'', ''Done.'']\<rparr>)"
proof -
  let ?st1 = "\<lparr>messages = [UserMessage ''q'',
                   AssistantMessage [] [ex_call ''call_1'' ''alerts__get-alerts''],
                   ToolMessage ''call_1'' ''No active alerts''],
       finalText = [''[Calling tool get-alerts on server alerts with args {}]'',
                    ''No active alerts'', ''Done.'']\<rparr>"
  let ?tr1 = "[CallTool (Client 1) (Some ''get-alerts'') (JObj []),
       ConsoleLog [Str ''\<newline> -- toolResult.content -- \<newline>'', Str ''No active alerts''],
       ChatCompletion
         [UserMessage ''q'',
          AssistantMessage [] [ex_call ''call_1'' ''alerts__get-alerts''],
          ToolMessage ''call_1'' ''No active alerts'']
         ex_catalog]"
  have h1: "Map_get (sessions ex_client)
     (fst (resolveName (tc_name (ex_call ''call_2'' ''geo__get-forecast'')))) = None"
    by (simp add: ex_client_def ex_call_def resolveName_def split_def Map_get_def)
  have h2: "dispatchInOrder ex_env (sessions ex_client) ex_catalog
      [ex_call ''call_1'' ''alerts__get-alerts'']
      ([], Inr \<lparr>messages = [UserMessage ''q''], finalText = []\<rparr>) = (?tr1, Inr ?st1)"
    by (simp add: dispatchInOrder_def dispatchStep_def processToolCall_def ex_client_def
        ex_env_def ex_call_def resolveName_def split_def Map_get_def Let_def)
  have line: "''[Error: Server '' @ fst (resolveName (tc_name (ex_call ''call_2'' ''geo__get-forecast'')))
                @ '' not found]'' = ''[Error: Server geo not found]''"
    by (simp add: ex_call_def resolveName_def split_def)
  from unresolved_call_isolated [OF h1 h2, of "[ex_call ''call_3'' ''alerts__get-alerts'']"]
  have "processToolCalls ex_env (sessions ex_client) ex_catalog
      ([ex_call ''call_1'' ''alerts__get-alerts''] @ ex_call ''call_2'' ''geo__get-forecast''
         # [ex_call ''call_3'' ''alerts__get-alerts''])
      \<lparr>messages = [UserMessage ''q''], finalText = []\<rparr> [] =
     dispatchInOrder ex_env (sessions ex_client) ex_catalog [ex_call ''call_3'' ''alerts__get-alerts'']
       (?tr1, Inr \<lparr>messages = messages ?st1,
                    finalText = finalText ?st1 @ [''[Error: Server geo not found]'']\<rparr>)"
    unfolding line by (rule conjunct2)
  with h1 show ?thesis
    by (simp add: dispatchInOrder_def dispatchStep_def processToolCall_def ex_client_def
        ex_env_def ex_call_def resolveName_def split_def Map_get_def Let_def)
qed

text \<open>
  C10: with no session in the registry \<open>processQuery\<close> throws
  \<open>Not connected to any server\<close> at once: the trace is returned as it was, so no tool
  listing, no model request and no provider call has been made.
\<close>

theorem processQuery_not_connected:
  "Map_size (sessions c) = 0 \<Longrightarrow> processQuery e c query tr = (tr, Inl NotConnected)"
  by (simp add: processQuery_def)

theorem processQuery_not_connected_witness:
  "Map_size (sessions newMCPClient) = 0 \<and>
   processQuery ex_env newMCPClient ''alerts for NY'' [] = ([], Inl NotConnected)"
  using processQuery_not_connected [of newMCPClient ex_env "''alerts for NY''" "[]"]
  by (simp add: Map_size_def newMCPClient_def)

section \<open>A tool invocation that fails\<close>





section \<open>Teardown\<close>

lemma closeTransports_all_ok:
  "(\<forall>i<length ts. sdk_close e (tr @ map TransportClose (take i ts)) (ts ! i) = None) \<Longrightarrow>
   closeTransports e ts tr = (tr @ map TransportClose ts, Inr ())"
proof (induction ts arbitrary: tr)
  case Nil
  then show ?case by simp
next
  case (Cons t ts)
  from Cons.prems have first: "sdk_close e tr t = None"
    by (auto dest: spec [where x = 0])
  have "\<forall>i<length ts.
          sdk_close e ((tr @ [TransportClose t]) @ map TransportClose (take i ts)) (ts ! i) = None"
  proof (intro allI impI)
    fix i assume "i < length ts"
    with Cons.prems show
      "sdk_close e ((tr @ [TransportClose t]) @ map TransportClose (take i ts)) (ts ! i) = None"
      by (auto dest!: spec [where x = "Suc i"])
  qed
  then have "closeTransports e ts (tr @ [TransportClose t]) =
               ((tr @ [TransportClose t]) @ map TransportClose ts, Inr ())"
    by (rule Cons.IH)
  with first show ?case by simp
qed

lemma closeTransports_first_failure:
  "k < length ts \<Longrightarrow>
   (\<forall>i<k. sdk_close e (tr @ map TransportClose (take i ts)) (ts ! i) = None) \<Longrightarrow>
   sdk_close e (tr @ map TransportClose (take k ts)) (ts ! k) = Some err \<Longrightarrow>
   closeTransports e ts tr = (tr @ map TransportClose (take (Suc k) ts), Inl err)"
proof (induction ts arbitrary: tr k)
  case Nil
  then show ?case by simp
next
  case (Cons t ts)
  show ?case
  proof (cases k)
    case 0
    with Cons.prems show ?thesis by simp
  next
    case (Suc j)
    from Cons.prems Suc have first: "sdk_close e tr t = None"
      by (auto dest: spec [where x = 0])
    have ok: "\<forall>i<j.
          sdk_close e ((tr @ [TransportClose t]) @ map TransportClose (take i ts)) (ts ! i) = None"
    proof (intro allI impI)
      fix i assume "i < j"
      with Cons.prems Suc show
        "sdk_close e ((tr @ [TransportClose t]) @ map TransportClose (take i ts)) (ts ! i) = None"
        by (auto dest!: spec [where x = "Suc i"])
    qed
    have "closeTransports e ts (tr @ [TransportClose t]) =
            ((tr @ [TransportClose t]) @ map TransportClose (take (Suc j) ts), Inl err)"
      using Cons.prems Suc by (intro Cons.IH ok) auto
    with first Suc show ?thesis by simp
  qed
qed

text \<open>
  C3, as stated, fails.  With one registered transport whose close is rejected, \<open>cleanup\<close>
  throws and clears nothing.  With two transports of which the first fails to close, the
  second is never closed.
\<close>

theorem cleanup_stops_at_first_failure_counterexample:
  "cleanup ex_env_close_fails ex_client [] =
     (ex_client,
      [TransportClose (StdioClientTransport 0 ''tsx'' [''mcp-server-v1.ts''])],
      Inl (Rejected ''kill EPERM''))
   \<and> cleanup ex_env_close_fails ex_client2 [] =
     (ex_client2,
      [TransportClose (StdioClientTransport 0 ''tsx'' [''mcp-server-v1.ts''])],
      Inl (Rejected ''kill EPERM''))"
  by (simp add: cleanup_def Map_values_def ex_client_def ex_client2_def ex_env_close_fails_def
      ex_env_def)

text \<open>
  C3, amended: for every registry state, \<open>cleanup\<close> closes the transports in insertion order
  and stops at the first close that fails.  If every close succeeds, each transport has been
  closed once, both maps are cleared and the method returns.  If the close of the transport
  at position \<open>k\<close> is the first to fail, the method throws that failure after having
  attempted the transports up to and including that one; the later transports are not closed
  and the maps are left as they were.
\<close>

theorem cleanup_stops_at_first_failure:
  assumes "ts = Map_values (transports c)"
  shows "((\<forall>i<length ts. sdk_close e (tr @ map TransportClose (take i ts)) (ts ! i) = None) \<longrightarrow>
            cleanup e c tr =
              (c\<lparr>transports := [], sessions := []\<rparr>, tr @ map TransportClose ts, Inr ()))
       \<and> (\<forall>k err. k < length ts \<longrightarrow>
            (\<forall>i<k. sdk_close e (tr @ map TransportClose (take i ts)) (ts ! i) = None) \<longrightarrow>
            sdk_close e (tr @ map TransportClose (take k ts)) (ts ! k) = Some err \<longrightarrow>
            cleanup e c tr = (c, tr @ map TransportClose (take (Suc k) ts), Inl err))"
  using assms
  by (auto simp: cleanup_def closeTransports_all_ok closeTransports_first_failure)

theorem cleanup_stops_at_first_failure_witness:
  "cleanup ex_env ex_client2 [] =
     (\<lparr>sessions = [], transports = [], next_oid = 4\<rparr>,
      [TransportClose (StdioClientTransport 0 ''tsx'' [''mcp-server-v1.ts'']),
       TransportClose (StreamableHTTPClientTransport 2 ''http://localhost:3000'')],
      Inr ())
   \<and> cleanup ex_env_close_fails ex_client_geo_first [] =
     (ex_client_geo_first,
      [TransportClose (StreamableHTTPClientTransport 0 ''http://localhost:3000''),
       TransportClose (StdioClientTransport 2 ''tsx'' [''mcp-server-v1.ts''])],
      Inl (Rejected ''kill EPERM''))"
proof -
  let ?t1 = "StdioClientTransport 0 ''tsx'' [''mcp-server-v1.ts'']"
  let ?t2 = "StreamableHTTPClientTransport 2 ''http://localhost:3000''"
  let ?u1 = "StreamableHTTPClientTransport 0 ''http://localhost:3000''"
  let ?u2 = "StdioClientTransport 2 ''tsx'' [''mcp-server-v1.ts'']"
  have ts: "[?t1, ?t2] = Map_values (transports ex_client2)"
    by (simp add: Map_values_def ex_client2_def)
  have ok: "\<forall>i<length [?t1, ?t2].
              sdk_close ex_env ([] @ map TransportClose (take i [?t1, ?t2])) ([?t1, ?t2] ! i) = None"
    by (simp add: ex_env_def)
  have a: "cleanup ex_env ex_client2 [] =
             (ex_client2\<lparr>transports := [], sessions := []\<rparr>, [] @ map TransportClose [?t1, ?t2], Inr ())"
    using cleanup_stops_at_first_failure [OF ts, of ex_env "[]"] ok by blast
  have us: "[?u1, ?u2] = Map_values (transports ex_client_geo_first)"
    by (simp add: Map_values_def ex_client_geo_first_def)
  have k: "(1::nat) < length [?u1, ?u2]" by simp
  have before: "\<forall>i<(1::nat).
      sdk_close ex_env_close_fails ([] @ map TransportClose (take i [?u1, ?u2])) ([?u1, ?u2] ! i) = None"
    by (simp add: ex_env_close_fails_def ex_env_def)
  have fails: "sdk_close ex_env_close_fails ([] @ map TransportClose (take 1 [?u1, ?u2])) ([?u1, ?u2] ! 1)
                 = Some (Rejected ''kill EPERM'')"
    by (simp add: ex_env_close_fails_def ex_env_def)
  have b: "cleanup ex_env_close_fails ex_client_geo_first [] =
             (ex_client_geo_first, [] @ map TransportClose (take (Suc 1) [?u1, ?u2]),
              Inl (Rejected ''kill EPERM''))"
    using cleanup_stops_at_first_failure [OF us, of ex_env_close_fails "[]"] k before fails by blast
  from a b show ?thesis
    by (simp add: ex_client2_def)
qed

section \<open>Registering a session\<close>

lemma Map_get_Map_set: "Map_get (Map_set k v m) k = Some v"
  by (induction m) (auto simp: Map_get_def)

lemma Map_set_keys_present:
  "Map_get m k = Some old \<Longrightarrow> map fst (Map_set k v m) = map fst m"
  by (induction m) (auto simp: Map_get_def split: if_splits)

text \<open>
  C9, as stated, fails: \<open>alerts\<close> is registered with the client object 1; connecting to
  \<open>alerts\<close> again does not fail, and the registry then holds the client object 3 and a new
  transport under that name.
\<close>

theorem reconnect_replaces_session_counterexample:
  "Map_get (sessions ex_client) ''alerts'' = Some (Client 1)
   \<and> connectToServer ex_env ex_cfgs ''alerts'' ex_client [] =
     (\<lparr>sessions = [(''alerts'', Client 3)],
       transports = [(''alerts'', StdioClientTransport 2 ''tsx'' [''mcp-server-v1.ts''])],
       next_oid = 4\<rparr>,
      [ClientConnect (Client 3) (StdioClientTransport 2 ''tsx'' [''mcp-server-v1.ts'']),
       ListTools (Client 3),
       ConsoleLog [Str (''\<newline>Connected to server '' @ [CHR 0x27] @ ''alerts'' @ [CHR 0x27]
                        @ '' with tools:''),
                   Strs [''get-alerts'']]],
      Inr ())"
  by (simp add: connectToServer_def ex_cfgs_def ex_client_def ex_env_def ex_tool_def
      selectTransport_def createCommandTransport_def split_def Map_get_def Let_def startsWith_def)

text \<open>
  C9, amended: for every registry state and every provider name already registered, adding
  a session under that name does not fail on that account.  Once the transport is built and
  \<open>client.connect\<close> has resolved, the new session and the new transport replace the ones
  stored under the name; the names in the registry, their order and their number stay the
  same; the method throws only if the tool listing that follows is rejected; and no
  transport is closed, the replaced one included.
\<close>

theorem reconnect_replaces_session:
  assumes "Map_get (sessions c) serverName = Some old"
    and "find (\<lambda>cfg. cfg_name cfg = serverName) cfgs = Some serverConfig"
    and "selectTransport e (next_oid c) serverName serverConfig = Inr transport"
    and "sdk_connect e tr (Client (next_oid c + 1)) transport = None"
    and "connectToServer e cfgs serverName c tr = (c', tr', r)"
  shows "Map_get (sessions c') serverName = Some (Client (next_oid c + 1))
       \<and> Map_get (transports c') serverName = Some transport
       \<and> map fst (sessions c') = map fst (sessions c)
       \<and> r = (case sdk_listTools e (tr @ [ClientConnect (Client (next_oid c + 1)) transport])
                       (Client (next_oid c + 1)) of
                Inl err \<Rightarrow> Inl err | Inr tools \<Rightarrow> Inr ())
       \<and> filter isTransportClose tr' = filter isTransportClose tr"
  using assms
  by (auto simp: connectToServer_def Let_def Map_get_Map_set Map_set_keys_present
      split: sum.splits)

theorem reconnect_replaces_session_witness:
  "Map_get (sessions ex_client) ''alerts'' = Some (Client 1)
   \<and> Map_get (sessions (fst (connectToServer ex_env ex_cfgs ''alerts'' ex_client [])))
       ''alerts'' = Some (Client 3)
   \<and> Map_get (transports (fst (connectToServer ex_env ex_cfgs ''alerts'' ex_client [])))
       ''alerts'' = Some (StdioClientTransport 2 ''tsx'' [''mcp-server-v1.ts''])
   \<and> map fst (sessions (fst (connectToServer ex_env ex_cfgs ''alerts'' ex_client []))) = [''alerts'']
   \<and> snd (snd (connectToServer ex_env ex_cfgs ''alerts'' ex_client [])) = Inr ()
   \<and> filter isTransportClose (fst (snd (connectToServer ex_env ex_cfgs ''alerts'' ex_client []))) = []"
proof -
  let ?t = "StdioClientTransport 2 ''tsx'' [''mcp-server-v1.ts'']"
  have h1: "Map_get (sessions ex_client) ''alerts'' = Some (Client 1)"
    by (simp add: Map_get_def ex_client_def)
  have h2: "find (\<lambda>cfg. cfg_name cfg = ''alerts'') ex_cfgs = Some (hd ex_cfgs)"
    by (simp add: ex_cfgs_def)
  have h3: "selectTransport ex_env (next_oid ex_client) ''alerts'' (hd ex_cfgs) = Inr ?t"
    by (simp add: selectTransport_def createCommandTransport_def split_def ex_cfgs_def
        ex_client_def startsWith_def)
  have h4: "sdk_connect ex_env [] (Client (next_oid ex_client + 1)) ?t = None"
    by (simp add: ex_env_def)
  obtain c' tr' r where run: "connectToServer ex_env ex_cfgs ''alerts'' ex_client [] = (c', tr', r)"
    by (cases "connectToServer ex_env ex_cfgs ''alerts'' ex_client []")
  from reconnect_replaces_session [OF h1 h2 h3 h4 run] h1 run show ?thesis
    by (simp add: ex_client_def ex_env_def)
qed

section \<open>How often the model is asked\<close>









section \<open>Connecting to the open servers\<close>

text \<open>Sessions and transports are stored together, so the two maps have the same keys.\<close>

lemma Map_set_same_keys:
  "map fst m = map fst m' \<Longrightarrow> map fst (Map_set k v m) = map fst (Map_set k v' m')"
proof (induction m arbitrary: m')
  case Nil
  then show ?case by simp
next
  case (Cons entry m)
  then show ?case by (cases m'; cases entry) auto
qed

lemma connectToServer_same_keys:
  assumes "connectToServer e cfgs serverName c tr = (c', tr', r)"
    and "map fst (sessions c) = map fst (transports c)"
  shows "map fst (sessions c') = map fst (transports c')"
  using assms
  by (auto simp: connectToServer_def Let_def Map_set_same_keys
      split: option.splits sum.splits)

lemma connectOpenServers_same_keys:
  assumes "connectOpenServers e cfgs names c tr = (c', tr')"
    and "map fst (sessions c) = map fst (transports c)"
  shows "map fst (sessions c') = map fst (transports c')"
  using assms
proof (induction names arbitrary: c tr)
  case Nil
  then show ?case by simp
next
  case (Cons serverName rest)
  obtain c1 tr1 r where one: "connectToServer e cfgs serverName c tr = (c1, tr1, r)"
    by (cases "connectToServer e cfgs serverName c tr")
  from connectToServer_same_keys [OF one Cons.prems(2)]
  have keys: "map fst (sessions c1) = map fst (transports c1)" .
  show ?case
  proof (cases r)
    case (Inl err)
    with Cons.prems(1) one show ?thesis
      by (auto intro: Cons.IH [OF _ keys])
  next
    case (Inr u)
    with Cons.prems(1) one show ?thesis
      by (auto intro: Cons.IH [OF _ keys])
  qed
qed

text \<open>
  What the guard of \<open>main\<close> decides on: when the registry is empty after the loop over the
  open servers, \<open>main\<close> throws \<open>Failed to connect to any server\<close> and the conversation
  loop is not entered.
\<close>

lemma main_stops_without_sessions:
  assumes "connectOpenServers e cfgs (getOpenServers cfgs) newMCPClient
             [ConsoleLog [Str ''Connecting to servers:'', Str (join '', '' (getOpenServers cfgs))]]
           = (c1, tr1)"
    and "sessions c1 = []"
  shows "main e cfgs input = (c1, tr1, Some (Inl FailedToConnectAny))"
proof -
  from connectOpenServers_same_keys [OF assms(1)] assms(2)
  have "transports c1 = []" by (simp add: newMCPClient_def)
  with assms show ?thesis
    by (simp add: main_def Let_def hasActiveSessions_def Map_size_def cleanup_def Map_values_def)
qed

text \<open>
  The tool listing of \<open>connectToServer\<close> comes after the two \<open>set\<close> calls: when the
  connection is accepted and the listing is rejected, the method throws with the session and
  the transport stored.
\<close>

lemma connectToServer_listing_rejected:
  assumes "find (\<lambda>cfg. cfg_name cfg = serverName) cfgs = Some serverConfig"
    and "selectTransport e (next_oid c) serverName serverConfig = Inr transport"
    and "sdk_connect e tr (Client (next_oid c + 1)) transport = None"
    and "sdk_listTools e (tr @ [ClientConnect (Client (next_oid c + 1)) transport])
           (Client (next_oid c + 1)) = Inl err"
  shows "connectToServer e cfgs serverName c tr =
           (c\<lparr>next_oid := next_oid c + 2,
              sessions := Map_set serverName (Client (next_oid c + 1)) (sessions c),
              transports := Map_set serverName transport (transports c)\<rparr>,
            tr @ [ClientConnect (Client (next_oid c + 1)) transport,
                  ListTools (Client (next_oid c + 1))],
            Inl err)"
  using assms by (simp add: connectToServer_def Let_def)

text \<open>
  C4: the claim asks for a registry with as many sessions as there are successful
  connections.  Here \<open>alerts\<close> connects, and \<open>geo\<close> accepts the connection but rejects
  the tool listing: \<open>connectToServer\<close> returns for \<open>alerts\<close> and throws for \<open>geo\<close>,
  \<open>main\<close> prints \<open>Failed to connect to server 'geo'\<close>, yet the session stored before the
  listing stays, and the registry has two sessions for one successful connection.
\<close>

theorem failed_listing_stays_registered:
  "getOpenServers ex_cfgs = [''alerts'', ''geo'']
   \<and> snd (snd (connectToServer ex_env_listing_fails ex_cfgs ''alerts'' newMCPClient [])) = Inr ()
   \<and> snd (snd (connectToServer ex_env_listing_fails ex_cfgs ''geo'' ex_client
          [ClientConnect (Client 1) (StdioClientTransport 0 ''tsx'' [''mcp-server-v1.ts'']),
           ListTools (Client 1),
           ConsoleLog [Str (''\<newline>Connected to server '' @ [CHR 0x27] @ ''alerts'' @ [CHR 0x27]
                            @ '' with tools:''),
                       Strs [''get-alerts'']]]))
       = Inl (Rejected ''MCP error -32601: Method not found'')
   \<and> connectOpenServers ex_env_listing_fails ex_cfgs [''alerts'', ''geo''] newMCPClient [] =
     (\<lparr>sessions = [(''alerts'', Client 1), (''geo'', Client 3)],
       transports = [(''alerts'', StdioClientTransport 0 ''tsx'' [''mcp-server-v1.ts'']),
                     (''geo'', StreamableHTTPClientTransport 2 ''http://localhost:3000'')],
       next_oid = 4\<rparr>,
      [ClientConnect (Client 1) (StdioClientTransport 0 ''tsx'' [''mcp-server-v1.ts'']),
       ListTools (Client 1),
       ConsoleLog [Str (''\<newline>Connected to server '' @ [CHR 0x27] @ ''alerts'' @ [CHR 0x27]
                        @ '' with tools:''),
                   Strs [''get-alerts'']],
       ClientConnect (Client 3) (StreamableHTTPClientTransport 2 ''http://localhost:3000''),
       ListTools (Client 3),
       ConsoleError [Str (''Failed to connect to server '' @ [CHR 0x27] @ ''geo'' @ [CHR 0x27]
                          @ '':''),
                     Err (Rejected ''MCP error -32601: Method not found'')]])
   \<and> Map_size (sessions (fst (connectOpenServers ex_env_listing_fails ex_cfgs [''alerts'', ''geo'']
          newMCPClient []))) = 2"
  by (simp add: newMCPClient_def getOpenServers_def ex_cfgs_def connectToServer_def
      ex_env_listing_fails_def
      ex_env_def ex_tool_def selectTransport_def createCommandTransport_def createHttpTransport_def
      split_def Let_def startsWith_def Map_size_def ex_client_def)

text \<open>
  C5: the claim asks \<open>main\<close> to stop with an error, before the conversation loop, when no
  provider connects successfully.  With the configuration as shipped (one open server,
  \<open>demo-stdio-v1\<close>) and a server that rejects the tool listing, the only connection attempt
  throws and is printed as failed, but its session is in the registry: \<open>main\<close> starts the
  loop, the query typed there fails at the tool listing, and \<open>main\<close> returns normally after
  \<open>quit\<close>.
\<close>

theorem chat_starts_after_failed_connects:
  "main ex_env_no_listing config [''alerts for NY'', ''quit''] =
     (\<lparr>sessions = [], transports = [], next_oid = 2\<rparr>,
      [ConsoleLog [Str ''Connecting to servers:'', Str ''demo-stdio-v1''],
       ClientConnect (Client 1) (StdioClientTransport 0 ''tsx'' [''mcp-server-v1.ts'']),
       ListTools (Client 1),
       ConsoleError [Str (''Failed to connect to server '' @ [CHR 0x27] @ ''demo-stdio-v1''
                          @ [CHR 0x27] @ '':''),
                     Err (Rejected ''MCP error -32601: Method not found'')],
       ConsoleLog [Str ''\<newline>MCP Client Started!''],
       ConsoleLog [Str (''Type your queries or '' @ [CHR 0x27] @ ''quit'' @ [CHR 0x27]
                        @ '' to exit.'')],
       Question ''\<newline>Query: '',
       ListTools (Client 1),
       ConsoleError [Str ''\<newline>Error:'', Err (Rejected ''MCP error -32601: Method not found'')],
       Question ''\<newline>Query: '',
       ReadlineClose,
       TransportClose (StdioClientTransport 0 ''tsx'' [''mcp-server-v1.ts''])],
      Some (Inr ()))"
  by (simp add: main_def newMCPClient_def getOpenServers_def config_def connectToServer_def
      ex_env_no_listing_def
      ex_env_def selectTransport_def createCommandTransport_def split_def Let_def startsWith_def
      hasActiveSessions_def Map_size_def chatLoop_def processQuery_def cleanup_def Map_values_def)

end
